theory Spec2Isabelle
  imports Main "HOL-Library.Sublist"
begin

section \<open>The pf backend of the firewall bouncer\<close>

text \<open>
  A shallow embedding of \<^verbatim>\<open>pf.go\<close> (the backend that drives \<^verbatim>\<open>/sbin/pfctl\<close>) and of the
  backend constructors for platforms without nftables and iptables.

  Everything the backend does is a call to the outside world: a look at the file system,
  a run of \<^verbatim>\<open>pfctl\<close>, a line handed to the logger. The model records each such call, in
  order, in a trace, and asks an environment for the answer of the outside world. The
  backend itself keeps no mutable data: no method of \<^verbatim>\<open>pf.go\<close> assigns to a field of
  \<^verbatim>\<open>pf\<close> or \<^verbatim>\<open>pfContext\<close> after \<^verbatim>\<open>newPF\<close>.
\<close>

subsection \<open>Go values\<close>

text \<open>
  A Go \<^verbatim>\<open>error\<close> is \<^verbatim>\<open>nil\<close> or a value; of a value only the text of \<^verbatim>\<open>Error()\<close> is
  ever used. A pointer field that may be \<^verbatim>\<open>nil\<close> is an option. The receiver of a backend
  method and the arguments \<^verbatim>\<open>decision\<close> and \<^verbatim>\<open>config\<close> are pointers as well; the model
  starts from the struct they point to.
\<close>

type_synonym error = "string option"

text \<open>
  A method returns an error value, or panics (here always by reading through a \<^verbatim>\<open>nil\<close>
  pointer).
\<close>

datatype outcome = Panic | Return error

text \<open>
  \<^verbatim>\<open>models.Decision\<close> is declared in the crowdsec module; \<^verbatim>\<open>pf.go\<close> reads three of its
  fields, each through a pointer (\<^verbatim>\<open>*decision.Value\<close>).
\<close>

record Decision =
  Duration :: "string option"
  Scenario :: "string option"
  Value :: "string option"

text \<open>Of the configuration, \<^verbatim>\<open>newPF\<close> reads the field \<^verbatim>\<open>DisableIPV6\<close> only.\<close>

record bouncerConfig =
  DisableIPV6 :: bool

record pfContext =
  proto :: string
  table :: string

record pf =
  inet :: "pfContext option"
  inet6 :: "pfContext option"

definition backendName :: string where
  "backendName = ''pf''"

definition pfctlCmd :: string where
  "pfctlCmd = ''/sbin/pfctl''"

definition pfDevice :: string where
  "pfDevice = ''/dev/pf''"

definition addBanFormat :: string where
  "addBanFormat = ''%s: add ban on %s for %s sec (%s)''"

definition delBanFormat :: string where
  "delBanFormat = ''%s: del ban on %s for %s sec (%s)''"

subsection \<open>The outside world\<close>

text \<open>
  A logging call is recorded with the function called, its format string and its
  arguments, as the source passes them; the logger's rendering and level filter are
  outside this file. The argument \<open>Seconds d\<close> stands for
  \<^verbatim>\<open>strconv.Itoa(int(d.Seconds()))\<close> of a duration of \<open>d\<close> nanoseconds, which Go computes
  in floating point.
\<close>

datatype logfn = Debugf | Infof | Errorf | Printf

datatype arg = Str string | Seconds int

text \<open>
  The events of a run: \<^verbatim>\<open>os.Stat\<close> and \<^verbatim>\<open>exec.LookPath\<close> with the error they returned, a
  run of an external command (\<^verbatim>\<open>CombinedOutput\<close>) with its argument vector, the captured
  output and the error returned (\<^verbatim>\<open>nil\<close> when the command exits with status zero), and
  logging calls.
\<close>

datatype event =
    Stat string error
  | LookPath string error
  | Exec "string list" string error
  | Log logfn string "arg list"

text \<open>
  The environment answers each call. An answer may depend on everything that happened
  before (the trace so far), so the external tool may behave in any way, also
  differently on each run. \<^verbatim>\<open>time.ParseDuration\<close> is a function of its argument:
  \<open>Inl\<close> the error text, \<open>Inr\<close> the duration in nanoseconds.
\<close>

record env =
  os_Stat :: "event list \<Rightarrow> string \<Rightarrow> error"
  exec_LookPath :: "event list \<Rightarrow> string \<Rightarrow> error"
  CombinedOutput :: "event list \<Rightarrow> string list \<Rightarrow> string \<times> error"
  time_ParseDuration :: "string \<Rightarrow> string + int"

text \<open>\<^verbatim>\<open>strings.Contains(s, substr)\<close>: whether \<open>substr\<close> occurs within \<open>s\<close>.\<close>

primrec Contains :: "string \<Rightarrow> string \<Rightarrow> bool" where
  "Contains [] substr = (substr = [])"
| "Contains (c # s) substr = (prefix substr (c # s) \<or> Contains s substr)"

text \<open>
  \<^verbatim>\<open>exec.Command(name, arg...)\<close> builds the argument vector \<open>name # arg\<close>; for a name
  with a path separator, as \<^verbatim>\<open>/sbin/pfctl\<close>, \<^verbatim>\<open>Cmd.String()\<close> is the name followed by
  each argument after a blank.
\<close>

fun cmd_String :: "string list \<Rightarrow> string" where
  "cmd_String [] = []"
| "cmd_String (path # args) = path @ concat (map (\<lambda>a. '' '' @ a) args)"

text \<open>The tool invocations of a trace, in order.\<close>

fun invocations :: "event list \<Rightarrow> string list list" where
  "invocations [] = []"
| "invocations (Exec argv out err # s) = argv # invocations s"
| "invocations (Stat p err # s) = invocations s"
| "invocations (LookPath p err # s) = invocations s"
| "invocations (Log f fmt args # s) = invocations s"

text \<open>The path lookups of a trace, in order.\<close>

fun lookups :: "event list \<Rightarrow> string list" where
  "lookups [] = []"
| "lookups (LookPath p err # s) = p # lookups s"
| "lookups (Stat p err # s) = lookups s"
| "lookups (Exec argv out err # s) = lookups s"
| "lookups (Log f fmt args # s) = lookups s"

text \<open>
  The Go idiom \<^verbatim>\<open>if err := f(); err != nil { return fmt.Errorf(..., err) }\<close>: a panic of
  \<open>f\<close> ends the caller, an error is wrapped and returned, and otherwise the caller goes on
  from the state \<open>f\<close> left.
\<close>

definition check ::
  "outcome \<times> event list \<Rightarrow> (string \<Rightarrow> string) \<Rightarrow> (event list \<Rightarrow> outcome \<times> event list)
     \<Rightarrow> outcome \<times> event list" where
  "check r wrap rest =
     (case r of
        (Panic, s) \<Rightarrow> (Panic, s)
      | (Return (Some e), s) \<Rightarrow> (Return (Some (wrap e)), s)
      | (Return None, s) \<Rightarrow> rest s)"

subsection \<open>The constructors\<close>

text \<open>
  \<^verbatim>\<open>newPF\<close> returns the backend as an \<^verbatim>\<open>interface{}\<close> (\<open>None\<close> would be the \<^verbatim>\<open>nil\<close>
  interface) and an error.
\<close>

definition newPF :: "bouncerConfig \<Rightarrow> pf option \<times> error" where
  "newPF config =
     (let ret = \<lparr>inet = None, inet6 = None\<rparr>;
          inetCtx = \<lparr>proto = ''inet'', table = ''crowdsec-blacklists''\<rparr>;
          inet6Ctx = \<lparr>proto = ''inet6'', table = ''crowdsec6-blacklists''\<rparr>;
          ret = ret\<lparr>inet := Some inetCtx\<rparr>
      in if DisableIPV6 config then (Some ret, None)
         else (Some (ret\<lparr>inet6 := Some inet6Ctx\<rparr>), None))"

text \<open>
  The constructors of the nftables and iptables backends in the files built for
  \<^verbatim>\<open>!linux\<close>: the result is a \<^verbatim>\<open>types.Backend\<close> interface value and an error, and the
  configuration is not read.
\<close>

definition NewNFTables :: "'config \<Rightarrow> 'backend option \<times> error" where
  "NewNFTables config = (None, None)"

definition NewIPTables :: "'config \<Rightarrow> 'backend option \<times> error" where
  "NewIPTables config = (None, None)"

subsection \<open>The operations of a family context\<close>

definition pfContext_checkTable :: "env \<Rightarrow> pfContext option \<Rightarrow> event list \<Rightarrow> outcome \<times> event list" where
  "pfContext_checkTable E ctx s =
     (case ctx of
        None \<Rightarrow> (Panic, s)
      | Some c \<Rightarrow>
          let s1 = s @ [Log Infof ''Checking pf table: %s'' [Str (table c)]];
              cmd = [pfctlCmd, ''-s'', ''Tables''];
              (out, err) = CombinedOutput E s1 cmd;
              s2 = s1 @ [Exec cmd out err]
          in (case err of
                Some e \<Rightarrow>
                  (Return (Some (''pfctl error : '' @ e @ '' - '' @ out @ '': '' @ e)), s2)
              | None \<Rightarrow>
                  if \<not> Contains out (table c)
                  then (Return (Some (''table '' @ table c @ '' doesn't exist'')), s2)
                  else (Return None, s2)))"

text \<open>
  In \<^verbatim>\<open>shutDown\<close> the format of the error line has three verbs and the call passes two
  arguments; the event records the call as it is made.
\<close>

definition pfContext_shutDown :: "env \<Rightarrow> pfContext option \<Rightarrow> event list \<Rightarrow> outcome \<times> event list" where
  "pfContext_shutDown E ctx s =
     (case ctx of
        None \<Rightarrow> (Panic, s)
      | Some c \<Rightarrow>
          let cmd = [pfctlCmd, ''-t'', table c, ''-T'', ''flush''];
              s1 = s @ [Log Infof ''pf table clean-up : %s'' [Str (cmd_String cmd)]];
              (out, err) = CombinedOutput E s1 cmd;
              s2 = s1 @ [Exec cmd out err]
          in (case err of
                Some e \<Rightarrow>
                  (Return None,
                   s2 @ [Log Errorf ''Error while flushing table (%s): %v - %s'' [Str e, Str out]])
              | None \<Rightarrow> (Return None, s2)))"

definition pfContext_Add :: "env \<Rightarrow> pfContext option \<Rightarrow> Decision \<Rightarrow> event list \<Rightarrow> outcome \<times> event list" where
  "pfContext_Add E ctx decision s =
     (case Duration decision of
        None \<Rightarrow> (Panic, s)
      | Some duration \<Rightarrow>
     (case time_ParseDuration E duration of
        Inl err \<Rightarrow> (Return (Some err), s)
      | Inr banDuration \<Rightarrow>
     (case Value decision of
        None \<Rightarrow> (Panic, s)
      | Some v \<Rightarrow>
     (case Scenario decision of
        None \<Rightarrow> (Panic, s)
      | Some scenario \<Rightarrow>
          let s1 = s @ [Log Debugf addBanFormat
                          [Str backendName, Str v, Seconds banDuration, Str scenario]]
          in (case ctx of
                None \<Rightarrow> (Panic, s1)
              | Some c \<Rightarrow>
                  let cmd = [pfctlCmd, ''-t'', table c, ''-T'', ''add'', v];
                      s2 = s1 @ [Log Debugf ''pfctl add : %s'' [Str (cmd_String cmd)]];
                      (out, err) = CombinedOutput E s2 cmd;
                      s3 = s2 @ [Exec cmd out err]
                  in (case err of
                        Some e \<Rightarrow>
                          (Return None,
                           s3 @ [Log Infof ''Error while adding to table (%s): %v --> %s''
                                   [Str (cmd_String cmd), Str e, Str out]])
                      | None \<Rightarrow> (Return None, s3)))))))"

definition pfContext_Delete :: "env \<Rightarrow> pfContext option \<Rightarrow> Decision \<Rightarrow> event list \<Rightarrow> outcome \<times> event list" where
  "pfContext_Delete E ctx decision s =
     (case Duration decision of
        None \<Rightarrow> (Panic, s)
      | Some duration \<Rightarrow>
     (case time_ParseDuration E duration of
        Inl err \<Rightarrow> (Return (Some err), s)
      | Inr banDuration \<Rightarrow>
     (case Value decision of
        None \<Rightarrow> (Panic, s)
      | Some v \<Rightarrow>
     (case Scenario decision of
        None \<Rightarrow> (Panic, s)
      | Some scenario \<Rightarrow>
          let s1 = s @ [Log Debugf delBanFormat
                          [Str backendName, Str v, Seconds banDuration, Str scenario]]
          in (case ctx of
                None \<Rightarrow> (Panic, s1)
              | Some c \<Rightarrow>
                  let cmd = [pfctlCmd, ''-t'', table c, ''-T'', ''delete'', v];
                      s2 = s1 @ [Log Debugf ''pfctl del : %s'' [Str (cmd_String cmd)]];
                      (out, err) = CombinedOutput E s2 cmd;
                      s3 = s2 @ [Exec cmd out err]
                  in (case err of
                        Some e \<Rightarrow>
                          (Return None,
                           s3 @ [Log Infof ''Error while deleting from table (%s): %v --> %s''
                                   [Str (cmd_String cmd), Str e, Str out]])
                      | None \<Rightarrow> (Return None, s3)))))))"

subsection \<open>The operations of the backend\<close>

definition pf_Init :: "env \<Rightarrow> pf \<Rightarrow> event list \<Rightarrow> outcome \<times> event list" where
  "pf_Init E b s =
     (let err = os_Stat E s pfDevice;
          s1 = s @ [Stat pfDevice err]
      in case err of
           Some e \<Rightarrow> (Return (Some (pfDevice @ '' device not found: '' @ e)), s1)
         | None \<Rightarrow>
     (let err = exec_LookPath E s1 pfctlCmd;
          s2 = s1 @ [LookPath pfctlCmd err]
      in case err of
           Some e \<Rightarrow> (Return (Some (pfctlCmd @ '' command not found: '' @ e)), s2)
         | None \<Rightarrow>
     check (pfContext_shutDown E (inet b) s2) (\<lambda>e. ''pf table flush failed: '' @ e) (\<lambda>s3.
     check (pfContext_checkTable E (inet b) s3) (\<lambda>e. ''pf init failed: '' @ e) (\<lambda>s4.
     let s5 = s4 @ [Log Printf ''pf for ipv4 initiated'' []]
     in if inet6 b \<noteq> None
        then
          check (pfContext_shutDown E (inet b) s5) (\<lambda>e. ''pf shutdown failed: '' @ e) (\<lambda>s6.
          check (pfContext_checkTable E (inet b) s6) (\<lambda>e. ''pf init failed: '' @ e) (\<lambda>s7.
          (Return None, s7 @ [Log Printf ''pf for ipv6 initiated'' []])))
        else (Return None, s5)))))"

definition pf_Add :: "env \<Rightarrow> pf \<Rightarrow> Decision \<Rightarrow> event list \<Rightarrow> outcome \<times> event list" where
  "pf_Add E b decision s =
     (case Value decision of
        None \<Rightarrow> (Panic, s)
      | Some v \<Rightarrow>
          if Contains v '':'' \<and> inet6 b \<noteq> None
          then
            (if inet6 b \<noteq> None
             then check (pfContext_Add E (inet6 b) decision s)
                    (\<lambda>e. ''failed to add ban ip '' @ [CHR 0x27] @ v @ [CHR 0x27] @ '' to inet6 table'')
                    (\<lambda>s'. (Return None, s'))
             else (Return None,
                   s @ [Log Debugf ''not adding '%s' because ipv6 is disabled'' [Str v]]))
          else check (pfContext_Add E (inet b) decision s)
                 (\<lambda>e. ''failed adding ban ip '' @ [CHR 0x27] @ v @ [CHR 0x27] @ '' to inet table'')
                 (\<lambda>s'. (Return None, s')))"

definition pf_Delete :: "env \<Rightarrow> pf \<Rightarrow> Decision \<Rightarrow> event list \<Rightarrow> outcome \<times> event list" where
  "pf_Delete E b decision s =
     (case Value decision of
        None \<Rightarrow> (Panic, s)
      | Some v \<Rightarrow>
          if Contains v '':''
          then
            (if inet6 b \<noteq> None
             then check (pfContext_Delete E (inet6 b) decision s)
                    (\<lambda>e. ''failed to remove ban ip '' @ [CHR 0x27] @ v @ [CHR 0x27] @ '' from inet6 table'')
                    (\<lambda>s'. (Return None, s'))
             else (Return None,
                   s @ [Log Debugf ''not removing '%s' because ipv6 is disabled'' [Str v]]))
          else check (pfContext_Delete E (inet b) decision s)
                 (\<lambda>e. ''failed to remove ban ip '' @ [CHR 0x27] @ v @ [CHR 0x27] @ '' from inet6 table'')
                 (\<lambda>s'. (Return None, s')))"

text \<open>
  In \<^verbatim>\<open>ShutDown\<close> both error messages read \<^verbatim>\<open>pf.inet.table\<close>. They are built only after
  a flush has returned an error, which a flush on a \<^verbatim>\<open>nil\<close> context, panicking, does not.
\<close>

definition pf_ShutDown :: "env \<Rightarrow> pf \<Rightarrow> event list \<Rightarrow> outcome \<times> event list" where
  "pf_ShutDown E b s =
     (let s1 = s @ [Log Infof ''flushing 'crowdsec' table(s)'' []]
      in check (pfContext_shutDown E (inet b) s1)
           (\<lambda>e. ''unable to flush inet table ('' @ (case inet b of Some c \<Rightarrow> table c | None \<Rightarrow> []) @ ''): '')
           (\<lambda>s2.
             if inet6 b \<noteq> None
             then check (pfContext_shutDown E (inet6 b) s2)
                    (\<lambda>e. ''unable to flush inet table ('' @ (case inet b of Some c \<Rightarrow> table c | None \<Rightarrow> []) @ ''): '')
                    (\<lambda>s3. (Return None, s3))
             else (Return None, s2)))"

subsection \<open>Example worlds\<close>

text \<open>
  Concrete inputs for the examples below. \<open>example_ParseDuration\<close> stands in for
  \<^verbatim>\<open>time.ParseDuration\<close> on the two duration strings the examples use: Go parses
  \<^verbatim>\<open>4h\<close> to four hours, in nanoseconds, and rejects \<^verbatim>\<open>not-a-duration\<close> (its first
  character is neither a sign, a digit nor a dot) with the error text given here.
\<close>

definition example_ParseDuration :: "string \<Rightarrow> string + int" where
  "example_ParseDuration s =
     (if s = ''4h'' then Inr 14400000000000
      else Inl (''time: invalid duration '' @ [CHR 0x22] @ s @ [CHR 0x22]))"

text \<open>
  A world in which \<^verbatim>\<open>os.Stat\<close> and \<^verbatim>\<open>exec.LookPath\<close> always give the same answer and
  the answer of the tool depends on its arguments only.
\<close>

definition example_world :: "error \<Rightarrow> error \<Rightarrow> (string list \<Rightarrow> string \<times> error) \<Rightarrow> env" where
  "example_world stat look run =
     \<lparr>os_Stat = \<lambda>s p. stat, exec_LookPath = \<lambda>s p. look, CombinedOutput = \<lambda>s. run,
      time_ParseDuration = example_ParseDuration\<rparr>"

text \<open>A tool that exits with status zero and prints nothing.\<close>

definition succeeds :: "string list \<Rightarrow> string \<times> error" where
  "succeeds cmd = ([], None)"

text \<open>A tool that exits with status one on every invocation.\<close>

definition fails :: "string list \<Rightarrow> string \<times> error" where
  "fails cmd = (''pfctl: Operation not permitted.'', Some ''exit status 1'')"

text \<open>A packet filter that has the IPv4 table and no other.\<close>

definition lists_inet_table :: "string list \<Rightarrow> string \<times> error" where
  "lists_inet_table cmd =
     (if cmd = [''/sbin/pfctl'', ''-s'', ''Tables''] then (''crowdsec-blacklists'', None)
      else ([], None))"

definition example_decision :: "string \<Rightarrow> string \<Rightarrow> Decision" where
  "example_decision v dur =
     \<lparr>Duration = Some dur, Scenario = Some ''bruteforce'', Value = Some v\<rparr>"

text \<open>The two backends \<^verbatim>\<open>newPF\<close> can build.\<close>

definition inet_only :: pf where
  "inet_only =
     \<lparr>inet = Some \<lparr>proto = ''inet'', table = ''crowdsec-blacklists''\<rparr>, inet6 = None\<rparr>"

definition dual_stack :: pf where
  "dual_stack =
     \<lparr>inet = Some \<lparr>proto = ''inet'', table = ''crowdsec-blacklists''\<rparr>,
      inet6 = Some \<lparr>proto = ''inet6'', table = ''crowdsec6-blacklists''\<rparr>\<rparr>"

lemmas example_defs =
  example_ParseDuration_def example_world_def succeeds_def fails_def lists_inet_table_def
  example_decision_def inet_only_def dual_stack_def
  pfctlCmd_def pfDevice_def backendName_def addBanFormat_def delBanFormat_def

section \<open>Properties\<close>

subsection \<open>Traces and strings\<close>

lemma invocations_append [simp]: "invocations (s @ t) = invocations s @ invocations t"
  by (induction s rule: invocations.induct) simp_all

lemma lookups_append [simp]: "lookups (s @ t) = lookups s @ lookups t"
  by (induction s rule: lookups.induct) simp_all

text \<open>\<open>Contains\<close> is the substring relation.\<close>

lemma Contains_sublist: "Contains s substr = sublist substr s"
  by (induction s) (auto simp: sublist_Cons_right)

lemma Contains_colon: "Contains v '':'' = (CHR '':'' \<in> set v)"
  by (induction v) auto

lemma example_backends:
  "newPF \<lparr>DisableIPV6 = True\<rparr> = (Some inet_only, None)"
  "newPF \<lparr>DisableIPV6 = False\<rparr> = (Some dual_stack, None)"
  by (simp_all add: newPF_def inet_only_def dual_stack_def)

text \<open>What \<open>check\<close> returns when the rest of the caller only returns \<^verbatim>\<open>nil\<close>.\<close>

lemma check_Return_None:
  "fst r = Return None \<Longrightarrow> check r wrap (\<lambda>s'. (Return None, s')) = (Return None, snd r)"
  by (cases r) (simp add: check_def)

lemma check_final:
  "check p wrap (\<lambda>s'. (Return None, s')) = (r, s') \<Longrightarrow>
     snd p = s' \<and> (fst p = Return None \<longrightarrow> r = Return None)"
  by (cases p) (auto simp: check_def split: outcome.splits option.splits)

lemma check_tolerant:
  assumes "check p wrap (\<lambda>s'. (Return None, s')) = (r, s')"
    and "\<And>x. p = (x, s') \<Longrightarrow> x = Return None \<and> Q"
  shows "r = Return None \<and> Q"
proof (cases p)
  case (Pair x s1)
  with check_final [OF assms(1)] have "p = (x, s')" by simp
  with assms(2) have "x = Return None \<and> Q" by blast
  with check_final [OF assms(1)] Pair show ?thesis by simp
qed

subsection \<open>The constructors\<close>

text \<open>
  Claim C10. For every configuration \<^verbatim>\<open>newPF\<close> returns a backend (not \<^verbatim>\<open>nil\<close>) and a
  \<^verbatim>\<open>nil\<close> error. The backend's IPv4 context is present, with table
  \<^verbatim>\<open>crowdsec-blacklists\<close> and proto \<^verbatim>\<open>inet\<close>; its IPv6 context, with table
  \<^verbatim>\<open>crowdsec6-blacklists\<close> and proto \<^verbatim>\<open>inet6\<close>, is present exactly when \<^verbatim>\<open>DisableIPV6\<close>
  is false. The operations below take the backend as a value and return none: the source
  assigns to its fields nowhere else, so what \<^verbatim>\<open>newPF\<close> built stays as it is.
\<close>

theorem newPF_backend:
  "newPF config =
     (Some \<lparr>inet = Some \<lparr>proto = ''inet'', table = ''crowdsec-blacklists''\<rparr>,
            inet6 = (if DisableIPV6 config then None
                     else Some \<lparr>proto = ''inet6'', table = ''crowdsec6-blacklists''\<rparr>)\<rparr>,
      None)"
  by (simp add: newPF_def)

text \<open>
  Claim C9. On a platform that is not Linux the constructors of the nftables and of the
  iptables backend return a \<^verbatim>\<open>nil\<close> backend together with a \<^verbatim>\<open>nil\<close> error, for every
  configuration.
\<close>

theorem stub_constructors:
  "NewNFTables config = (None, None) \<and> NewIPTables config' = (None, None)"
  by (simp add: NewNFTables_def NewIPTables_def)

subsection \<open>The operations of a family context\<close>

text \<open>
  A flush on a context that is there returns \<^verbatim>\<open>nil\<close> whatever the tool answers, runs the
  tool once, looks no path up, and follows a failed run by an \<^verbatim>\<open>Errorf\<close> line.
\<close>

lemma shutDown_Some:
  "\<exists>t. pfContext_shutDown E (Some c) s = (Return None, s @ t)
     \<and> invocations t = [[pfctlCmd, ''-t'', table c, ''-T'', ''flush'']]
     \<and> lookups t = []
     \<and> (\<forall>cmd out e. Exec cmd out (Some e) \<in> set t \<longrightarrow>
           Log Errorf ''Error while flushing table (%s): %v - %s'' [Str e, Str out] \<in> set t)"
  by (auto simp: pfContext_shutDown_def Let_def split: prod.splits option.splits)

lemma shutDown_no_lookup:
  "\<exists>t. snd (pfContext_shutDown E ctx s) = s @ t \<and> lookups t = []"
  by (auto simp: pfContext_shutDown_def Let_def split: prod.splits option.splits)

lemma checkTable_no_lookup:
  "\<exists>t. snd (pfContext_checkTable E ctx s) = s @ t \<and> lookups t = []"
  by (auto simp: pfContext_checkTable_def Let_def split: prod.splits option.splits)

text \<open>A run of \<open>Add\<close> or \<open>Delete\<close> on a decision that is complete and parses.\<close>

lemma Add_run:
  assumes "Value d = Some v" and "Duration d = Some dur" and "Scenario d = Some sc"
    and "time_ParseDuration E dur = Inr n"
  shows "fst (pfContext_Add E (Some c) d s) = Return None
       \<and> invocations (snd (pfContext_Add E (Some c) d s)) =
           invocations s @ [[pfctlCmd, ''-t'', table c, ''-T'', ''add'', v]]"
  using assms
  by (auto simp: pfContext_Add_def Let_def split: option.splits prod.splits)

lemma Delete_run:
  assumes "Value d = Some v" and "Duration d = Some dur" and "Scenario d = Some sc"
    and "time_ParseDuration E dur = Inr n"
  shows "fst (pfContext_Delete E (Some c) d s) = Return None
       \<and> invocations (snd (pfContext_Delete E (Some c) d s)) =
           invocations s @ [[pfctlCmd, ''-t'', table c, ''-T'', ''delete'', v]]"
  using assms
  by (auto simp: pfContext_Delete_def Let_def split: option.splits prod.splits)

text \<open>A failed run of the tool within \<open>Add\<close> or \<open>Delete\<close>.\<close>

lemma Add_tolerant:
  "pfContext_Add E ctx d s = (r, s @ t) \<Longrightarrow> Exec cmd out (Some e) \<in> set t \<Longrightarrow>
     r = Return None
     \<and> Log Infof ''Error while adding to table (%s): %v --> %s''
          [Str (cmd_String cmd), Str e, Str out] \<in> set t"
  by (auto simp: pfContext_Add_def Let_def split: option.splits sum.splits prod.splits)

lemma Delete_tolerant:
  "pfContext_Delete E ctx d s = (r, s @ t) \<Longrightarrow> Exec cmd out (Some e) \<in> set t \<Longrightarrow>
     r = Return None
     \<and> Log Infof ''Error while deleting from table (%s): %v --> %s''
          [Str (cmd_String cmd), Str e, Str out] \<in> set t"
  by (auto simp: pfContext_Delete_def Let_def split: option.splits sum.splits prod.splits)

subsection \<open>Routing in the backend\<close>

text \<open>How the backend routes a decision whose \<open>Value\<close> is set.\<close>

lemma pf_Add_routes:
  "Value d = Some v \<Longrightarrow>
     \<exists>c wrap. pf_Add E b d s = check (pfContext_Add E c d s) wrap (\<lambda>s'. (Return None, s'))"
  by (auto simp: pf_Add_def)

lemma pf_Delete_routes:
  "Value d = Some v \<Longrightarrow>
     (\<exists>c wrap. pf_Delete E b d s = check (pfContext_Delete E c d s) wrap (\<lambda>s'. (Return None, s')))
     \<or> pf_Delete E b d s =
         (Return None, s @ [Log Debugf ''not removing '%s' because ipv6 is disabled'' [Str v]])"
  by (auto simp: pf_Delete_def)

text \<open>
  With the IPv6 context absent, \<open>Delete\<close> drops a decision whose address has a colon, and
  \<open>Add\<close> hands every decision, whatever its address, to the IPv4 context: the condition
  \<^verbatim>\<open>strings.Contains(*decision.Value, ":") && pf.inet6 != nil\<close> is false, and the branch
  that would log \<^verbatim>\<open>not adding '%s' because ipv6 is disabled\<close> is never reached.
\<close>

lemma pf_Delete_family_disabled:
  "Value d = Some v \<Longrightarrow> Contains v '':'' \<Longrightarrow> inet6 b = None \<Longrightarrow>
     pf_Delete E b d s =
       (Return None, s @ [Log Debugf ''not removing '%s' because ipv6 is disabled'' [Str v]])"
  by (simp add: pf_Delete_def)

lemma pf_Add_family_disabled:
  "Value d = Some v \<Longrightarrow> inet6 b = None \<Longrightarrow>
     pf_Add E b d s =
       check (pfContext_Add E (inet b) d s)
         (\<lambda>e. ''failed adding ban ip '' @ [CHR 0x27] @ v @ [CHR 0x27] @ '' to inet table'')
         (\<lambda>s'. (Return None, s'))"
  by (simp add: pf_Add_def)

lemma pf_Add_tolerant:
  assumes "pf_Add E b d s = (r, s @ t)" and "Exec cmd out (Some e) \<in> set t"
  shows "r = Return None
     \<and> Log Infof ''Error while adding to table (%s): %v --> %s''
          [Str (cmd_String cmd), Str e, Str out] \<in> set t"
proof (cases "Value d")
  case None
  with assms show ?thesis by (simp add: pf_Add_def)
next
  case (Some v)
  then obtain c wrap where
    "pf_Add E b d s = check (pfContext_Add E c d s) wrap (\<lambda>s'. (Return None, s'))"
    using pf_Add_routes by blast
  with assms(1) have "check (pfContext_Add E c d s) wrap (\<lambda>s'. (Return None, s')) = (r, s @ t)"
    by simp
  then show ?thesis
    by (rule check_tolerant) (rule Add_tolerant [OF _ assms(2)])
qed

lemma pf_Delete_tolerant:
  assumes "pf_Delete E b d s = (r, s @ t)" and "Exec cmd out (Some e) \<in> set t"
  shows "r = Return None
     \<and> Log Infof ''Error while deleting from table (%s): %v --> %s''
          [Str (cmd_String cmd), Str e, Str out] \<in> set t"
proof (cases "Value d")
  case None
  with assms show ?thesis by (simp add: pf_Delete_def)
next
  case (Some v)
  from pf_Delete_routes [OF Some, of E b s] show ?thesis
  proof
    assume "\<exists>c wrap. pf_Delete E b d s =
        check (pfContext_Delete E c d s) wrap (\<lambda>s'. (Return None, s'))"
    then obtain c wrap where
      "pf_Delete E b d s = check (pfContext_Delete E c d s) wrap (\<lambda>s'. (Return None, s'))"
      by blast
    with assms(1)
    have "check (pfContext_Delete E c d s) wrap (\<lambda>s'. (Return None, s')) = (r, s @ t)"
      by simp
    then show ?thesis
      by (rule check_tolerant) (rule Delete_tolerant [OF _ assms(2)])
  next
    assume "pf_Delete E b d s =
      (Return None, s @ [Log Debugf ''not removing '%s' because ipv6 is disabled'' [Str v]])"
    with assms show ?thesis by auto
  qed
qed

subsection \<open>Malformed durations and failed invocations\<close>

text \<open>
  Claim C5 says that for every decision whose \<open>Duration\<close> string does not parse, \<open>Add\<close>
  and, symmetrically, \<open>Delete\<close> return an error. As stated this fails for the backend's
  \<open>Delete\<close>: with the IPv6 context absent, a decision whose address has a colon is
  dropped before its duration is looked at, and \<open>Delete\<close> returns \<^verbatim>\<open>nil\<close>.
\<close>

theorem Delete_drops_before_parsing:
  "time_ParseDuration (example_world None None succeeds) ''not-a-duration''
     = Inl (''time: invalid duration '' @ [CHR 0x22] @ ''not-a-duration'' @ [CHR 0x22])
 \<and> pf_Delete (example_world None None succeeds)
      \<lparr>inet = Some \<lparr>proto = ''inet'', table = ''crowdsec-blacklists''\<rparr>, inet6 = None\<rparr>
      \<lparr>Duration = Some ''not-a-duration'', Scenario = Some ''bruteforce'',
       Value = Some ''2001:db8::1''\<rparr> []
   = (Return None,
      [Log Debugf ''not removing '%s' because ipv6 is disabled'' [Str ''2001:db8::1'']])"
  by (simp add: pf_Delete_def example_defs)

text \<open>
  Claim C5, amended. For every decision whose \<open>Duration\<close> string does not parse, \<open>Add\<close>
  and \<open>Delete\<close> of a family context return the parse error and leave the trace as it was:
  no tool invocation is made and nothing is logged, so whatever is processed next runs
  from the same state as if this decision had never been seen. The backend's \<open>Add\<close> and
  \<open>Delete\<close> return an error, with the trace unchanged, whenever they hand the decision
  to a family context: \<open>Add\<close> for every decision, \<open>Delete\<close> unless the value has a colon
  and the IPv6 context is absent. In that last case \<open>Delete\<close> returns \<^verbatim>\<open>nil\<close>, having
  logged one \<^verbatim>\<open>Debugf\<close> line and made no invocation.
\<close>

theorem malformed_duration:
  assumes "Duration d = Some dur" and "time_ParseDuration E dur = Inl e"
  shows "pfContext_Add E ctx d s = (Return (Some e), s)
       \<and> pfContext_Delete E ctx d s = (Return (Some e), s)
       \<and> (Value d = Some v \<longrightarrow>
            pf_Add E b d s =
              (Return (Some (if Contains v '':'' \<and> inet6 b \<noteq> None
                             then ''failed to add ban ip '' @ [CHR 0x27] @ v @ [CHR 0x27] @ '' to inet6 table''
                             else ''failed adding ban ip '' @ [CHR 0x27] @ v @ [CHR 0x27] @ '' to inet table'')),
               s))
       \<and> (Value d = Some v \<and> \<not> (Contains v '':'' \<and> inet6 b = None) \<longrightarrow>
            pf_Delete E b d s =
              (Return (Some (''failed to remove ban ip '' @ [CHR 0x27] @ v @ [CHR 0x27] @ '' from inet6 table'')),
               s))
       \<and> (Value d = Some v \<and> Contains v '':'' \<and> inet6 b = None \<longrightarrow>
            pf_Delete E b d s =
              (Return None,
               s @ [Log Debugf ''not removing '%s' because ipv6 is disabled'' [Str v]]))"
proof -
  from assms have ctx: "pfContext_Add E c d s = (Return (Some e), s)"
    "pfContext_Delete E c d s = (Return (Some e), s)" for c
    by (simp_all add: pfContext_Add_def pfContext_Delete_def)
  then show ?thesis
    by (auto simp: pf_Add_def pf_Delete_def check_def)
qed

text \<open>
  C5, amended, at the decisions \<^verbatim>\<open>{Value: "203.0.113.7", Duration: "not-a-duration"}\<close>
  and \<^verbatim>\<open>{Value: "2001:db8::1", Duration: "not-a-duration"}\<close>, with IPv6 disabled and
  enabled.
\<close>

theorem malformed_duration_witness:
  "Duration (example_decision ''203.0.113.7'' ''not-a-duration'') = Some ''not-a-duration''
 \<and> time_ParseDuration (example_world None None succeeds) ''not-a-duration''
     = Inl (''time: invalid duration '' @ [CHR 0x22] @ ''not-a-duration'' @ [CHR 0x22])
 \<and> pfContext_Add (example_world None None succeeds)
      (Some \<lparr>proto = ''inet'', table = ''crowdsec-blacklists''\<rparr>)
      (example_decision ''203.0.113.7'' ''not-a-duration'') []
     = (Return (Some (''time: invalid duration '' @ [CHR 0x22] @ ''not-a-duration'' @ [CHR 0x22])), [])
 \<and> pfContext_Delete (example_world None None succeeds)
      (Some \<lparr>proto = ''inet'', table = ''crowdsec-blacklists''\<rparr>)
      (example_decision ''203.0.113.7'' ''not-a-duration'') []
     = (Return (Some (''time: invalid duration '' @ [CHR 0x22] @ ''not-a-duration'' @ [CHR 0x22])), [])
 \<and> pf_Add (example_world None None succeeds) inet_only
      (example_decision ''203.0.113.7'' ''not-a-duration'') []
     = (Return (Some ''failed adding ban ip '203.0.113.7' to inet table''), [])
 \<and> pf_Delete (example_world None None succeeds) inet_only
      (example_decision ''203.0.113.7'' ''not-a-duration'') []
     = (Return (Some ''failed to remove ban ip '203.0.113.7' from inet6 table''), [])
 \<and> pf_Add (example_world None None succeeds) dual_stack
      (example_decision ''2001:db8::1'' ''not-a-duration'') []
     = (Return (Some ''failed to add ban ip '2001:db8::1' to inet6 table''), [])
 \<and> pf_Delete (example_world None None succeeds) dual_stack
      (example_decision ''2001:db8::1'' ''not-a-duration'') []
     = (Return (Some ''failed to remove ban ip '2001:db8::1' from inet6 table''), [])
 \<and> pf_Delete (example_world None None succeeds) inet_only
      (example_decision ''2001:db8::1'' ''not-a-duration'') []
     = (Return None,
        [Log Debugf ''not removing '%s' because ipv6 is disabled'' [Str ''2001:db8::1'']])"
proof -
  let ?E = "example_world None None succeeds"
  let ?d4 = "example_decision ''203.0.113.7'' ''not-a-duration''"
  let ?d6 = "example_decision ''2001:db8::1'' ''not-a-duration''"
  let ?c = "Some \<lparr>proto = ''inet'', table = ''crowdsec-blacklists''\<rparr>"
  have dur4: "Duration ?d4 = Some ''not-a-duration''"
    and dur6: "Duration ?d6 = Some ''not-a-duration''"
    and v4: "Value ?d4 = Some ''203.0.113.7''"
    and v6: "Value ?d6 = Some ''2001:db8::1''"
    by (simp_all add: example_decision_def)
  have parse: "time_ParseDuration ?E ''not-a-duration''
     = Inl (''time: invalid duration '' @ [CHR 0x22] @ ''not-a-duration'' @ [CHR 0x22])"
    by (simp add: example_defs)
  have routed4: "\<not> (Contains ''203.0.113.7'' '':'' \<and> inet6 inet_only = None)"
    and routed6: "\<not> (Contains ''2001:db8::1'' '':'' \<and> inet6 dual_stack = None)"
    and dropped: "Contains ''2001:db8::1'' '':'' \<and> inet6 inet_only = None"
    and six: "Contains ''2001:db8::1'' '':'' \<and> inet6 dual_stack \<noteq> None"
    and four: "\<not> Contains ''203.0.113.7'' '':''"
    by (simp_all add: inet_only_def dual_stack_def)
  from dur4 parse v4 routed4 four
    malformed_duration [OF dur4 parse, where ctx = ?c and s = "[]" and b = inet_only
      and v = "''203.0.113.7''"]
  have r4: "pfContext_Add ?E ?c ?d4 [] =
        (Return (Some (''time: invalid duration '' @ [CHR 0x22] @ ''not-a-duration'' @ [CHR 0x22])), [])
    \<and> pfContext_Delete ?E ?c ?d4 [] =
        (Return (Some (''time: invalid duration '' @ [CHR 0x22] @ ''not-a-duration'' @ [CHR 0x22])), [])
    \<and> pf_Add ?E inet_only ?d4 [] =
        (Return (Some ''failed adding ban ip '203.0.113.7' to inet table''), [])
    \<and> pf_Delete ?E inet_only ?d4 [] =
        (Return (Some ''failed to remove ban ip '203.0.113.7' from inet6 table''), [])"
    by simp
  from v6 routed6 six
    malformed_duration [OF dur6 parse, where s = "[]" and b = dual_stack and v = "''2001:db8::1''"]
  have r6: "pf_Add ?E dual_stack ?d6 [] =
        (Return (Some ''failed to add ban ip '2001:db8::1' to inet6 table''), [])
    \<and> pf_Delete ?E dual_stack ?d6 [] =
        (Return (Some ''failed to remove ban ip '2001:db8::1' from inet6 table''), [])"
    by simp
  from v6 dropped
    malformed_duration [OF dur6 parse, where s = "[]" and b = inet_only and v = "''2001:db8::1''"]
  have r0: "pf_Delete ?E inet_only ?d6 [] =
        (Return None, [Log Debugf ''not removing '%s' because ipv6 is disabled'' [Str ''2001:db8::1'']])"
    by simp
  from dur4 parse r4 r6 r0 show ?thesis by simp
qed

text \<open>
  Claim C4. If the tool invocation made by \<open>Add\<close> or \<open>Delete\<close> fails (the run returns an
  error, as it does on a non-zero exit status), the call still returns \<^verbatim>\<open>nil\<close>, and an
  \<^verbatim>\<open>Infof\<close> line is logged whose arguments are the command, the error and the captured
  combined output. This holds for the operations of a family context and for those of
  the backend; \<open>t\<close> is what the call adds to the trace.
\<close>

theorem tolerant_engine_failure:
  "(pfContext_Add E ctx d s = (r, s @ t) \<and> Exec cmd out (Some e) \<in> set t \<longrightarrow>
      r = Return None
      \<and> Log Infof ''Error while adding to table (%s): %v --> %s''
           [Str (cmd_String cmd), Str e, Str out] \<in> set t)
 \<and> (pfContext_Delete E ctx d s = (r, s @ t) \<and> Exec cmd out (Some e) \<in> set t \<longrightarrow>
      r = Return None
      \<and> Log Infof ''Error while deleting from table (%s): %v --> %s''
           [Str (cmd_String cmd), Str e, Str out] \<in> set t)
 \<and> (pf_Add E b d s = (r, s @ t) \<and> Exec cmd out (Some e) \<in> set t \<longrightarrow>
      r = Return None
      \<and> Log Infof ''Error while adding to table (%s): %v --> %s''
           [Str (cmd_String cmd), Str e, Str out] \<in> set t)
 \<and> (pf_Delete E b d s = (r, s @ t) \<and> Exec cmd out (Some e) \<in> set t \<longrightarrow>
      r = Return None
      \<and> Log Infof ''Error while deleting from table (%s): %v --> %s''
           [Str (cmd_String cmd), Str e, Str out] \<in> set t)"
  using Add_tolerant [of E ctx d s r t cmd out e] Delete_tolerant [of E ctx d s r t cmd out e]
    pf_Add_tolerant [of E b d s r t cmd out e] pf_Delete_tolerant [of E b d s r t cmd out e]
  by blast

text \<open>
  C4 in a world where every invocation exits with status one: the four operations on
  the decisions \<^verbatim>\<open>203.0.113.7\<close> and \<^verbatim>\<open>2001:db8::1\<close>.
\<close>

theorem tolerant_engine_failure_witness:
  "Exec [''/sbin/pfctl'', ''-t'', ''crowdsec-blacklists'', ''-T'', ''add'', ''203.0.113.7'']
     ''pfctl: Operation not permitted.'' (Some ''exit status 1'')
     \<in> set (snd (pfContext_Add (example_world None None fails)
                   (Some \<lparr>proto = ''inet'', table = ''crowdsec-blacklists''\<rparr>)
                   (example_decision ''203.0.113.7'' ''4h'') []))
 \<and> fst (pfContext_Add (example_world None None fails)
          (Some \<lparr>proto = ''inet'', table = ''crowdsec-blacklists''\<rparr>)
          (example_decision ''203.0.113.7'' ''4h'') []) = Return None
 \<and> Log Infof ''Error while adding to table (%s): %v --> %s''
      [Str ''/sbin/pfctl -t crowdsec-blacklists -T add 203.0.113.7'',
       Str ''exit status 1'', Str ''pfctl: Operation not permitted.'']
     \<in> set (snd (pfContext_Add (example_world None None fails)
                   (Some \<lparr>proto = ''inet'', table = ''crowdsec-blacklists''\<rparr>)
                   (example_decision ''203.0.113.7'' ''4h'') []))
 \<and> Exec [''/sbin/pfctl'', ''-t'', ''crowdsec-blacklists'', ''-T'', ''delete'', ''203.0.113.7'']
     ''pfctl: Operation not permitted.'' (Some ''exit status 1'')
     \<in> set (snd (pfContext_Delete (example_world None None fails)
                   (Some \<lparr>proto = ''inet'', table = ''crowdsec-blacklists''\<rparr>)
                   (example_decision ''203.0.113.7'' ''4h'') []))
 \<and> fst (pfContext_Delete (example_world None None fails)
          (Some \<lparr>proto = ''inet'', table = ''crowdsec-blacklists''\<rparr>)
          (example_decision ''203.0.113.7'' ''4h'') []) = Return None
 \<and> Log Infof ''Error while deleting from table (%s): %v --> %s''
      [Str ''/sbin/pfctl -t crowdsec-blacklists -T delete 203.0.113.7'',
       Str ''exit status 1'', Str ''pfctl: Operation not permitted.'']
     \<in> set (snd (pfContext_Delete (example_world None None fails)
                   (Some \<lparr>proto = ''inet'', table = ''crowdsec-blacklists''\<rparr>)
                   (example_decision ''203.0.113.7'' ''4h'') []))
 \<and> Exec [''/sbin/pfctl'', ''-t'', ''crowdsec6-blacklists'', ''-T'', ''add'', ''2001:db8::1'']
     ''pfctl: Operation not permitted.'' (Some ''exit status 1'')
     \<in> set (snd (pf_Add (example_world None None fails) dual_stack
                   (example_decision ''2001:db8::1'' ''4h'') []))
 \<and> fst (pf_Add (example_world None None fails) dual_stack
          (example_decision ''2001:db8::1'' ''4h'') []) = Return None
 \<and> Log Infof ''Error while adding to table (%s): %v --> %s''
      [Str ''/sbin/pfctl -t crowdsec6-blacklists -T add 2001:db8::1'',
       Str ''exit status 1'', Str ''pfctl: Operation not permitted.'']
     \<in> set (snd (pf_Add (example_world None None fails) dual_stack
                   (example_decision ''2001:db8::1'' ''4h'') []))
 \<and> Exec [''/sbin/pfctl'', ''-t'', ''crowdsec6-blacklists'', ''-T'', ''delete'', ''2001:db8::1'']
     ''pfctl: Operation not permitted.'' (Some ''exit status 1'')
     \<in> set (snd (pf_Delete (example_world None None fails) dual_stack
                   (example_decision ''2001:db8::1'' ''4h'') []))
 \<and> fst (pf_Delete (example_world None None fails) dual_stack
          (example_decision ''2001:db8::1'' ''4h'') []) = Return None
 \<and> Log Infof ''Error while deleting from table (%s): %v --> %s''
      [Str ''/sbin/pfctl -t crowdsec6-blacklists -T delete 2001:db8::1'',
       Str ''exit status 1'', Str ''pfctl: Operation not permitted.'']
     \<in> set (snd (pf_Delete (example_world None None fails) dual_stack
                   (example_decision ''2001:db8::1'' ''4h'') []))"
proof -
  let ?E = "example_world None None fails"
  let ?c = "Some \<lparr>proto = ''inet'', table = ''crowdsec-blacklists''\<rparr>"
  let ?d = "example_decision ''203.0.113.7'' ''4h''"
  let ?d6 = "example_decision ''2001:db8::1'' ''4h''"
  let ?out = "''pfctl: Operation not permitted.''"
  let ?e = "''exit status 1''"
  let ?add = "[''/sbin/pfctl'', ''-t'', ''crowdsec-blacklists'', ''-T'', ''add'', ''203.0.113.7'']"
  let ?del = "[''/sbin/pfctl'', ''-t'', ''crowdsec-blacklists'', ''-T'', ''delete'', ''203.0.113.7'']"
  let ?add6 = "[''/sbin/pfctl'', ''-t'', ''crowdsec6-blacklists'', ''-T'', ''add'', ''2001:db8::1'']"
  let ?del6 = "[''/sbin/pfctl'', ''-t'', ''crowdsec6-blacklists'', ''-T'', ''delete'', ''2001:db8::1'']"
  have x1: "Exec ?add ?out (Some ?e) \<in> set (snd (pfContext_Add ?E ?c ?d []))"
    by (simp add: pfContext_Add_def example_defs)
  have x2: "Exec ?del ?out (Some ?e) \<in> set (snd (pfContext_Delete ?E ?c ?d []))"
    by (simp add: pfContext_Delete_def example_defs)
  have x3: "Exec ?add6 ?out (Some ?e) \<in> set (snd (pf_Add ?E dual_stack ?d6 []))"
    by (simp add: pf_Add_def check_def pfContext_Add_def example_defs)
  have x4: "Exec ?del6 ?out (Some ?e) \<in> set (snd (pf_Delete ?E dual_stack ?d6 []))"
    by (simp add: pf_Delete_def check_def pfContext_Delete_def example_defs)
  have split: "f = (fst f, [] @ snd f)" for f :: "outcome \<times> event list"
    by simp
  from x1 split [of "pfContext_Add ?E ?c ?d []"]
    tolerant_engine_failure [of ?E ?c ?d "[]" "fst (pfContext_Add ?E ?c ?d [])"
      "snd (pfContext_Add ?E ?c ?d [])" ?add ?out ?e]
  have y1: "fst (pfContext_Add ?E ?c ?d []) = Return None
    \<and> Log Infof ''Error while adding to table (%s): %v --> %s''
         [Str (cmd_String ?add), Str ?e, Str ?out] \<in> set (snd (pfContext_Add ?E ?c ?d []))"
    by blast
  from x2 split [of "pfContext_Delete ?E ?c ?d []"]
    tolerant_engine_failure [of ?E ?c ?d "[]" "fst (pfContext_Delete ?E ?c ?d [])"
      "snd (pfContext_Delete ?E ?c ?d [])" ?del ?out ?e]
  have y2: "fst (pfContext_Delete ?E ?c ?d []) = Return None
    \<and> Log Infof ''Error while deleting from table (%s): %v --> %s''
         [Str (cmd_String ?del), Str ?e, Str ?out] \<in> set (snd (pfContext_Delete ?E ?c ?d []))"
    by blast
  from x3 split [of "pf_Add ?E dual_stack ?d6 []"]
    tolerant_engine_failure [of ?E ?c ?d6 "[]" "fst (pf_Add ?E dual_stack ?d6 [])"
      "snd (pf_Add ?E dual_stack ?d6 [])" ?add6 ?out ?e dual_stack]
  have y3: "fst (pf_Add ?E dual_stack ?d6 []) = Return None
    \<and> Log Infof ''Error while adding to table (%s): %v --> %s''
         [Str (cmd_String ?add6), Str ?e, Str ?out] \<in> set (snd (pf_Add ?E dual_stack ?d6 []))"
    by blast
  from x4 split [of "pf_Delete ?E dual_stack ?d6 []"]
    tolerant_engine_failure [of ?E ?c ?d6 "[]" "fst (pf_Delete ?E dual_stack ?d6 [])"
      "snd (pf_Delete ?E dual_stack ?d6 [])" ?del6 ?out ?e dual_stack]
  have y4: "fst (pf_Delete ?E dual_stack ?d6 []) = Return None
    \<and> Log Infof ''Error while deleting from table (%s): %v --> %s''
         [Str (cmd_String ?del6), Str ?e, Str ?out] \<in> set (snd (pf_Delete ?E dual_stack ?d6 []))"
    by blast
  from x1 x2 x3 x4 y1 y2 y3 y4 show ?thesis
    by simp
qed

subsection \<open>The table check\<close>

text \<open>
  Claim C7 says that the table check succeeds if and only if the captured output contains
  the table name. As stated this fails: when the query itself exits with a non-zero
  status the check returns an error (\<^verbatim>\<open>pfctl error : ...\<close>, which does not name the
  table), although the output contains the name.
\<close>

theorem checkTable_failed_query:
  "Contains (fst (CombinedOutput (example_world None None (\<lambda>cmd. (''crowdsec-blacklists'', Some ''exit status 1'')))
                    [Log Infof ''Checking pf table: %s'' [Str ''crowdsec-blacklists'']]
                    [''/sbin/pfctl'', ''-s'', ''Tables'']))
     ''crowdsec-blacklists''
 \<and> pfContext_checkTable
      (example_world None None (\<lambda>cmd. (''crowdsec-blacklists'', Some ''exit status 1'')))
      (Some \<lparr>proto = ''inet'', table = ''crowdsec-blacklists''\<rparr>) []
   = (Return (Some ''pfctl error : exit status 1 - crowdsec-blacklists: exit status 1''),
      [Log Infof ''Checking pf table: %s'' [Str ''crowdsec-blacklists''],
       Exec [''/sbin/pfctl'', ''-s'', ''Tables''] ''crowdsec-blacklists'' (Some ''exit status 1'')])"
  by (simp add: example_world_def pfContext_checkTable_def Let_def pfctlCmd_def)

text \<open>
  Claim C7, amended. The table check runs \<^verbatim>\<open>/sbin/pfctl -s Tables\<close> once; it succeeds if
  and only if that run returns no error and the captured output contains the context's
  table name as a substring; when the run returns no error and the name is absent, it
  returns the error \<^verbatim>\<open>table <name> doesn't exist\<close>. An error of the check that \<open>Init\<close>
  makes on its IPv4 context after the first flush is returned by \<open>Init\<close> as
  \<^verbatim>\<open>pf init failed: <error>\<close>.
\<close>

theorem checkTable_result:
  "(CombinedOutput E (s @ [Log Infof ''Checking pf table: %s'' [Str (table c)]])
        [''/sbin/pfctl'', ''-s'', ''Tables''] = (out, err) \<longrightarrow>
      snd (pfContext_checkTable E (Some c) s) =
        s @ [Log Infof ''Checking pf table: %s'' [Str (table c)],
             Exec [''/sbin/pfctl'', ''-s'', ''Tables''] out err]
    \<and> (fst (pfContext_checkTable E (Some c) s) = Return None)
        = (err = None \<and> Contains out (table c))
    \<and> (err = None \<and> \<not> Contains out (table c) \<longrightarrow>
         fst (pfContext_checkTable E (Some c) s) =
           Return (Some (''table '' @ table c @ '' doesn't exist''))))
 \<and> (os_Stat E s pfDevice = None
      \<and> exec_LookPath E (s @ [Stat pfDevice None]) pfctlCmd = None
      \<and> inet b = Some c
      \<and> pfContext_checkTable E (Some c)
           (snd (pfContext_shutDown E (Some c)
                   (s @ [Stat pfDevice None, LookPath pfctlCmd None]))) = (Return (Some e), s')
      \<longrightarrow> pf_Init E b s = (Return (Some (''pf init failed: '' @ e)), s'))"
proof (intro conjI impI)
  assume "CombinedOutput E (s @ [Log Infof ''Checking pf table: %s'' [Str (table c)]])
        [''/sbin/pfctl'', ''-s'', ''Tables''] = (out, err)"
  then show "snd (pfContext_checkTable E (Some c) s) =
        s @ [Log Infof ''Checking pf table: %s'' [Str (table c)],
             Exec [''/sbin/pfctl'', ''-s'', ''Tables''] out err]"
    and "(fst (pfContext_checkTable E (Some c) s) = Return None)
        = (err = None \<and> Contains out (table c))"
    by (auto simp: pfContext_checkTable_def pfctlCmd_def Let_def split: option.splits)
next
  assume "CombinedOutput E (s @ [Log Infof ''Checking pf table: %s'' [Str (table c)]])
        [''/sbin/pfctl'', ''-s'', ''Tables''] = (out, err)"
    and "err = None \<and> \<not> Contains out (table c)"
  then show "fst (pfContext_checkTable E (Some c) s) =
           Return (Some (''table '' @ table c @ '' doesn't exist''))"
    by (simp add: pfContext_checkTable_def pfctlCmd_def Let_def)
next
  let ?s2 = "s @ [Stat pfDevice None, LookPath pfctlCmd None]"
  assume a: "os_Stat E s pfDevice = None
      \<and> exec_LookPath E (s @ [Stat pfDevice None]) pfctlCmd = None
      \<and> inet b = Some c
      \<and> pfContext_checkTable E (Some c)
           (snd (pfContext_shutDown E (Some c) ?s2)) = (Return (Some e), s')"
  obtain t where "pfContext_shutDown E (Some c) ?s2 = (Return None, ?s2 @ t)"
    using shutDown_Some [of E c ?s2] by blast
  with a show "pf_Init E b s = (Return (Some (''pf init failed: '' @ e)), s')"
    by (simp add: pf_Init_def check_def)
qed

text \<open>
  C7, amended, on a packet filter that lists the IPv4 table only (the check of the IPv4
  context succeeds, that of the IPv6 context names the missing table), and \<open>Init\<close> on
  one that lists no table.
\<close>

theorem checkTable_result_witness:
  "fst (pfContext_checkTable (example_world None None lists_inet_table)
          (Some \<lparr>proto = ''inet'', table = ''crowdsec-blacklists''\<rparr>) []) = Return None
 \<and> pfContext_checkTable (example_world None None lists_inet_table)
      (Some \<lparr>proto = ''inet6'', table = ''crowdsec6-blacklists''\<rparr>) []
   = (Return (Some ''table crowdsec6-blacklists doesn't exist''),
      [Log Infof ''Checking pf table: %s'' [Str ''crowdsec6-blacklists''],
       Exec [''/sbin/pfctl'', ''-s'', ''Tables''] ''crowdsec-blacklists'' None])
 \<and> pf_Init (example_world None None succeeds) inet_only []
   = (Return (Some ''pf init failed: table crowdsec-blacklists doesn't exist''),
      [Stat ''/dev/pf'' None, LookPath ''/sbin/pfctl'' None,
       Log Infof ''pf table clean-up : %s'' [Str ''/sbin/pfctl -t crowdsec-blacklists -T flush''],
       Exec [''/sbin/pfctl'', ''-t'', ''crowdsec-blacklists'', ''-T'', ''flush''] [] None,
       Log Infof ''Checking pf table: %s'' [Str ''crowdsec-blacklists''],
       Exec [''/sbin/pfctl'', ''-s'', ''Tables''] [] None])"
proof -
  let ?E = "example_world None None lists_inet_table"
  let ?Q = "example_world None None succeeds"
  let ?c4 = "\<lparr>proto = ''inet'', table = ''crowdsec-blacklists''\<rparr>"
  let ?c6 = "\<lparr>proto = ''inet6'', table = ''crowdsec6-blacklists''\<rparr>"
  let ?s3 = "[Stat ''/dev/pf'' None, LookPath ''/sbin/pfctl'' None,
       Log Infof ''pf table clean-up : %s'' [Str ''/sbin/pfctl -t crowdsec-blacklists -T flush''],
       Exec [''/sbin/pfctl'', ''-t'', ''crowdsec-blacklists'', ''-T'', ''flush''] [] None]"
  have q4: "CombinedOutput ?E ([] @ [Log Infof ''Checking pf table: %s'' [Str (table ?c4)]])
      [''/sbin/pfctl'', ''-s'', ''Tables''] = (''crowdsec-blacklists'', None)"
    and q6: "CombinedOutput ?E ([] @ [Log Infof ''Checking pf table: %s'' [Str (table ?c6)]])
      [''/sbin/pfctl'', ''-s'', ''Tables''] = (''crowdsec-blacklists'', None)"
    by (simp_all add: example_defs)
  have in4: "Contains ''crowdsec-blacklists'' (table ?c4)"
    and out6: "\<not> Contains ''crowdsec-blacklists'' (table ?c6)"
    by simp_all
  have dev: "os_Stat ?Q [] pfDevice = None"
    and tool: "exec_LookPath ?Q ([] @ [Stat pfDevice None]) pfctlCmd = None"
    and ctx: "inet inet_only = Some ?c4"
    and chk: "pfContext_checkTable ?Q (Some ?c4)
        (snd (pfContext_shutDown ?Q (Some ?c4) ([] @ [Stat pfDevice None, LookPath pfctlCmd None])))
      = (Return (Some ''table crowdsec-blacklists doesn't exist''),
         ?s3 @ [Log Infof ''Checking pf table: %s'' [Str ''crowdsec-blacklists''],
                Exec [''/sbin/pfctl'', ''-s'', ''Tables''] [] None])"
    by (simp_all add: pfContext_checkTable_def pfContext_shutDown_def example_defs)
  from q4 in4 checkTable_result [of ?E "[]" ?c4 "''crowdsec-blacklists''" None]
  have r4: "fst (pfContext_checkTable ?E (Some ?c4) []) = Return None"
    by blast
  from q6 out6 checkTable_result [of ?E "[]" ?c6 "''crowdsec-blacklists''" None]
  have r6: "fst (pfContext_checkTable ?E (Some ?c6) []) =
        Return (Some (''table '' @ table ?c6 @ '' doesn't exist''))
      \<and> snd (pfContext_checkTable ?E (Some ?c6) []) =
        [] @ [Log Infof ''Checking pf table: %s'' [Str (table ?c6)],
              Exec [''/sbin/pfctl'', ''-s'', ''Tables''] ''crowdsec-blacklists'' None]"
    by blast
  from dev tool ctx chk checkTable_result [of ?Q "[]" ?c4 _ _ inet_only]
  have init: "pf_Init ?Q inet_only [] =
      (Return (Some (''pf init failed: '' @ ''table crowdsec-blacklists doesn't exist'')),
       ?s3 @ [Log Infof ''Checking pf table: %s'' [Str ''crowdsec-blacklists''],
              Exec [''/sbin/pfctl'', ''-s'', ''Tables''] [] None])"
    by blast
  from r4 r6 init show ?thesis
    by (simp add: prod_eq_iff)
qed

subsection \<open>Adding and deleting through the backend\<close>

text \<open>
  Claim C1 says that with the IPv6 context absent a decision whose address has a colon is
  dropped by \<open>Add\<close> and by \<open>Delete\<close>, with no tool invocation. \<open>Delete\<close> does so
  (\<open>pf_Delete_family_disabled\<close>); \<open>Add\<close> does not. On the backend built with IPv6
  disabled, \<open>Add\<close> of \<^verbatim>\<open>2001:db8::1\<close> runs
  \<^verbatim>\<open>/sbin/pfctl -t crowdsec-blacklists -T add 2001:db8::1\<close>: the address goes to the IPv4
  table.
\<close>

theorem Add_ipv6_disabled_reaches_ipv4_table:
  "newPF \<lparr>DisableIPV6 = True\<rparr> =
     (Some \<lparr>inet = Some \<lparr>proto = ''inet'', table = ''crowdsec-blacklists''\<rparr>, inet6 = None\<rparr>, None)
 \<and> pf_Add (example_world None None succeeds)
      \<lparr>inet = Some \<lparr>proto = ''inet'', table = ''crowdsec-blacklists''\<rparr>, inet6 = None\<rparr>
      \<lparr>Duration = Some ''4h'', Scenario = Some ''bruteforce'', Value = Some ''2001:db8::1''\<rparr> []
   = (Return None,
      [Log Debugf ''%s: add ban on %s for %s sec (%s)''
         [Str ''pf'', Str ''2001:db8::1'', Seconds 14400000000000, Str ''bruteforce''],
       Log Debugf ''pfctl add : %s''
         [Str ''/sbin/pfctl -t crowdsec-blacklists -T add 2001:db8::1''],
       Exec [''/sbin/pfctl'', ''-t'', ''crowdsec-blacklists'', ''-T'', ''add'', ''2001:db8::1'']
         [] None])"
  by (simp add: newPF_def pf_Add_def check_def pfContext_Add_def example_defs)

text \<open>
  Claim C3 says that every decision routed to an enabled family context gives exactly one
  tool invocation. As stated this fails for a decision whose duration does not parse: it
  is routed to the IPv4 context and no invocation is made.
\<close>

theorem unparsed_duration_gives_no_invocation:
  "pf_Add (example_world None None succeeds)
      \<lparr>inet = Some \<lparr>proto = ''inet'', table = ''crowdsec-blacklists''\<rparr>, inet6 = None\<rparr>
      \<lparr>Duration = Some ''not-a-duration'', Scenario = Some ''bruteforce'',
       Value = Some ''203.0.113.7''\<rparr> []
   = (Return (Some ''failed adding ban ip '203.0.113.7' to inet table''), [])
 \<and> invocations (snd (pf_Add (example_world None None succeeds)
      \<lparr>inet = Some \<lparr>proto = ''inet'', table = ''crowdsec-blacklists''\<rparr>, inet6 = None\<rparr>
      \<lparr>Duration = Some ''not-a-duration'', Scenario = Some ''bruteforce'',
       Value = Some ''203.0.113.7''\<rparr> [])) = []"
  by (simp add: pf_Add_def check_def pfContext_Add_def example_defs)

text \<open>
  Claim C3, amended. For every decision with \<open>Value\<close>, \<open>Duration\<close> and \<open>Scenario\<close> set
  and a \<open>Duration\<close> that parses: if the value has no colon, \<open>Add\<close> and \<open>Delete\<close> each
  make exactly one tool invocation, the add or delete of the value on the IPv4 context's
  table; if the value has a colon and the IPv6 context is present, each makes exactly one
  invocation, the add or delete of the value on the IPv6 context's table.
\<close>

theorem one_invocation_on_own_table:
  assumes "Value d = Some v" and "Duration d = Some dur" and "Scenario d = Some sc"
    and "time_ParseDuration E dur = Inr n"
  shows "(\<not> Contains v '':'' \<and> inet b = Some c4 \<longrightarrow>
            invocations (snd (pf_Add E b d s)) =
              invocations s @ [[''/sbin/pfctl'', ''-t'', table c4, ''-T'', ''add'', v]]
          \<and> invocations (snd (pf_Delete E b d s)) =
              invocations s @ [[''/sbin/pfctl'', ''-t'', table c4, ''-T'', ''delete'', v]])
       \<and> (Contains v '':'' \<and> inet6 b = Some c6 \<longrightarrow>
            invocations (snd (pf_Add E b d s)) =
              invocations s @ [[''/sbin/pfctl'', ''-t'', table c6, ''-T'', ''add'', v]]
          \<and> invocations (snd (pf_Delete E b d s)) =
              invocations s @ [[''/sbin/pfctl'', ''-t'', table c6, ''-T'', ''delete'', v]])"
  using assms Add_run [OF assms, of c4 s] Delete_run [OF assms, of c4 s]
    Add_run [OF assms, of c6 s] Delete_run [OF assms, of c6 s]
  by (simp add: pf_Add_def pf_Delete_def check_Return_None pfctlCmd_def)

text \<open>
  C3, amended, on the decisions \<^verbatim>\<open>{Value: "203.0.113.7", Duration: "4h"}\<close> with IPv6
  disabled and \<^verbatim>\<open>{Value: "2001:db8::1", Duration: "4h"}\<close> with IPv6 enabled.
\<close>

theorem one_invocation_on_own_table_witness:
  "invocations (snd (pf_Add (example_world None None succeeds) inet_only
                       (example_decision ''203.0.113.7'' ''4h'') []))
     = [[''/sbin/pfctl'', ''-t'', ''crowdsec-blacklists'', ''-T'', ''add'', ''203.0.113.7'']]
 \<and> invocations (snd (pf_Delete (example_world None None succeeds) inet_only
                       (example_decision ''203.0.113.7'' ''4h'') []))
     = [[''/sbin/pfctl'', ''-t'', ''crowdsec-blacklists'', ''-T'', ''delete'', ''203.0.113.7'']]
 \<and> invocations (snd (pf_Add (example_world None None succeeds) dual_stack
                       (example_decision ''2001:db8::1'' ''4h'') []))
     = [[''/sbin/pfctl'', ''-t'', ''crowdsec6-blacklists'', ''-T'', ''add'', ''2001:db8::1'']]
 \<and> invocations (snd (pf_Delete (example_world None None succeeds) dual_stack
                       (example_decision ''2001:db8::1'' ''4h'') []))
     = [[''/sbin/pfctl'', ''-t'', ''crowdsec6-blacklists'', ''-T'', ''delete'', ''2001:db8::1'']]"
proof -
  let ?E = "example_world None None succeeds"
  let ?d4 = "example_decision ''203.0.113.7'' ''4h''"
  let ?d6 = "example_decision ''2001:db8::1'' ''4h''"
  let ?c4 = "\<lparr>proto = ''inet'', table = ''crowdsec-blacklists''\<rparr>"
  let ?c6 = "\<lparr>proto = ''inet6'', table = ''crowdsec6-blacklists''\<rparr>"
  have v4: "Value ?d4 = Some ''203.0.113.7''" and v6: "Value ?d6 = Some ''2001:db8::1''"
    and dur4: "Duration ?d4 = Some ''4h''" and dur6: "Duration ?d6 = Some ''4h''"
    and sc4: "Scenario ?d4 = Some ''bruteforce''" and sc6: "Scenario ?d6 = Some ''bruteforce''"
    by (simp_all add: example_decision_def)
  have parse: "time_ParseDuration ?E ''4h'' = Inr 14400000000000"
    by (simp add: example_defs)
  have fam4: "\<not> Contains ''203.0.113.7'' '':'' \<and> inet inet_only = Some ?c4"
    and fam6: "Contains ''2001:db8::1'' '':'' \<and> inet6 dual_stack = Some ?c6"
    by (simp_all add: inet_only_def dual_stack_def)
  from fam4 one_invocation_on_own_table [OF v4 dur4 sc4 parse, of inet_only ?c4 "[]" ?c6]
    fam6 one_invocation_on_own_table [OF v6 dur6 sc6 parse, of dual_stack ?c4 "[]" ?c6]
  show ?thesis by simp
qed

subsection \<open>Initialisation and shutdown\<close>

text \<open>
  Claim C2 says that with the IPv6 context present \<open>Init\<close> flushes the IPv6 table and
  verifies that the IPv6 table exists. It does neither: the block guarded by
  \<^verbatim>\<open>pf.inet6 != nil\<close> calls \<^verbatim>\<open>pf.inet.shutDown()\<close> and \<^verbatim>\<open>pf.inet.checkTable()\<close> again.
  On a packet filter that has the IPv4 table only, \<open>Init\<close> of the backend built with
  IPv6 enabled returns \<^verbatim>\<open>nil\<close> and logs \<^verbatim>\<open>pf for ipv6 initiated\<close>; every invocation it
  makes names \<^verbatim>\<open>crowdsec-blacklists\<close> or lists the tables.
\<close>

theorem Init_ipv6_checks_ipv4_table:
  "newPF \<lparr>DisableIPV6 = False\<rparr> =
     (Some \<lparr>inet = Some \<lparr>proto = ''inet'', table = ''crowdsec-blacklists''\<rparr>,
            inet6 = Some \<lparr>proto = ''inet6'', table = ''crowdsec6-blacklists''\<rparr>\<rparr>, None)
 \<and> pf_Init (example_world None None lists_inet_table)
     \<lparr>inet = Some \<lparr>proto = ''inet'', table = ''crowdsec-blacklists''\<rparr>,
      inet6 = Some \<lparr>proto = ''inet6'', table = ''crowdsec6-blacklists''\<rparr>\<rparr> []
   = (Return None,
      [Stat ''/dev/pf'' None, LookPath ''/sbin/pfctl'' None,
       Log Infof ''pf table clean-up : %s'' [Str ''/sbin/pfctl -t crowdsec-blacklists -T flush''],
       Exec [''/sbin/pfctl'', ''-t'', ''crowdsec-blacklists'', ''-T'', ''flush''] [] None,
       Log Infof ''Checking pf table: %s'' [Str ''crowdsec-blacklists''],
       Exec [''/sbin/pfctl'', ''-s'', ''Tables''] ''crowdsec-blacklists'' None,
       Log Printf ''pf for ipv4 initiated'' [],
       Log Infof ''pf table clean-up : %s'' [Str ''/sbin/pfctl -t crowdsec-blacklists -T flush''],
       Exec [''/sbin/pfctl'', ''-t'', ''crowdsec-blacklists'', ''-T'', ''flush''] [] None,
       Log Infof ''Checking pf table: %s'' [Str ''crowdsec-blacklists''],
       Exec [''/sbin/pfctl'', ''-s'', ''Tables''] ''crowdsec-blacklists'' None,
       Log Printf ''pf for ipv6 initiated'' []])"
  by (simp add: newPF_def pf_Init_def pfContext_shutDown_def pfContext_checkTable_def
        check_def example_defs)

text \<open>
  With the IPv6 context absent, \<open>Init\<close> makes at most the flush and the table check of
  the IPv4 context.
\<close>

lemma Init_family_disabled:
  assumes "inet b = Some c4" and "inet6 b = None"
  shows "\<exists>t. snd (pf_Init E b s) = s @ t
       \<and> prefix (invocations t)
            [[pfctlCmd, ''-t'', table c4, ''-T'', ''flush''], [pfctlCmd, ''-s'', ''Tables'']]"
  using assms
  by (auto simp: pf_Init_def check_def pfContext_shutDown_def pfContext_checkTable_def Let_def
           split: prod.splits option.splits)

text \<open>Composition with \<open>check\<close> keeps a run free of path lookups.\<close>

lemma check_no_lookup:
  assumes "\<exists>t. snd r = s @ t \<and> lookups t = []"
    and "\<And>s'. \<exists>t. snd (rest s') = s' @ t \<and> lookups t = []"
  shows "\<exists>t. snd (check r wrap rest) = s @ t \<and> lookups t = []"
proof -
  from assms(1) obtain t where t: "snd r = s @ t" "lookups t = []" by blast
  from assms(2) obtain t' where t': "snd (rest (s @ t)) = (s @ t) @ t'" "lookups t' = []" by blast
  show ?thesis
  proof (cases r)
    case (Pair x s1)
    with t t' show ?thesis
      by (cases x) (auto simp: check_def split: option.splits)
  qed
qed

text \<open>
  Once the device check has passed, \<open>Init\<close> looks the tool up, and that is the only
  path lookup of the run.
\<close>

lemma Init_one_lookup:
  assumes "os_Stat E s pfDevice = None"
  shows "\<exists>t. snd (pf_Init E b s) =
           s @ [Stat pfDevice None,
                LookPath pfctlCmd (exec_LookPath E (s @ [Stat pfDevice None]) pfctlCmd)] @ t
         \<and> lookups t = []"
proof (cases "exec_LookPath E (s @ [Stat pfDevice None]) pfctlCmd")
  case (Some e)
  with assms show ?thesis by (simp add: pf_Init_def)
next
  case None
  let ?s2 = "s @ [Stat pfDevice None, LookPath pfctlCmd None]"
  have v6: "\<exists>t. snd (if inet6 b \<noteq> None
        then check (pfContext_shutDown E (inet b) s5) w2 (\<lambda>s6.
             check (pfContext_checkTable E (inet b) s6) w3 (\<lambda>s7.
               (Return None, s7 @ [Log Printf ''pf for ipv6 initiated'' []])))
        else (Return None, s5)) = s5 @ t \<and> lookups t = []" for s5 w2 w3
    by (auto intro!: check_no_lookup shutDown_no_lookup checkTable_no_lookup)
  have v4: "\<exists>t. snd (let s5 = s4 @ [Log Printf ''pf for ipv4 initiated'' []]
        in if inet6 b \<noteq> None
           then check (pfContext_shutDown E (inet b) s5) w2 (\<lambda>s6.
                check (pfContext_checkTable E (inet b) s6) w3 (\<lambda>s7.
                  (Return None, s7 @ [Log Printf ''pf for ipv6 initiated'' []])))
           else (Return None, s5)) = s4 @ t \<and> lookups t = []" for s4 w2 w3
  proof -
    from v6 [of "s4 @ [Log Printf ''pf for ipv4 initiated'' []]" w2 w3]
    obtain t where "snd (if inet6 b \<noteq> None
        then check (pfContext_shutDown E (inet b) (s4 @ [Log Printf ''pf for ipv4 initiated'' []])) w2 (\<lambda>s6.
             check (pfContext_checkTable E (inet b) s6) w3 (\<lambda>s7.
               (Return None, s7 @ [Log Printf ''pf for ipv6 initiated'' []])))
        else (Return None, s4 @ [Log Printf ''pf for ipv4 initiated'' []])) =
        (s4 @ [Log Printf ''pf for ipv4 initiated'' []]) @ t" and "lookups t = []"
      by blast
    then show ?thesis
      by (intro exI [of _ "[Log Printf ''pf for ipv4 initiated'' []] @ t"]) (simp add: Let_def)
  qed
  have "\<exists>t. snd (check (pfContext_shutDown E (inet b) ?s2) w0 (\<lambda>s3.
     check (pfContext_checkTable E (inet b) s3) w1 (\<lambda>s4.
     let s5 = s4 @ [Log Printf ''pf for ipv4 initiated'' []]
     in if inet6 b \<noteq> None
        then check (pfContext_shutDown E (inet b) s5) w2 (\<lambda>s6.
             check (pfContext_checkTable E (inet b) s6) w3 (\<lambda>s7.
               (Return None, s7 @ [Log Printf ''pf for ipv6 initiated'' []])))
        else (Return None, s5)))) = ?s2 @ t \<and> lookups t = []" for w0 w1 w2 w3
    by (intro check_no_lookup shutDown_no_lookup checkTable_no_lookup v4)
  with assms None show ?thesis
    by (simp add: pf_Init_def)
qed

text \<open>
  Claim C6. If \<^verbatim>\<open>os.Stat\<close> of \<^verbatim>\<open>/dev/pf\<close> fails, \<open>Init\<close> returns an error after that
  single call: no tool invocation is made. If the device is there, the presence of the
  tool is checked next, by \<^verbatim>\<open>exec.LookPath\<close>; a failed lookup makes \<open>Init\<close> return an error,
  again with no invocation made. In every run that passes the device check the lookup
  comes directly after it and is the only lookup of the run.
\<close>

theorem Init_preconditions:
  "(os_Stat E s pfDevice = Some e \<longrightarrow>
      pf_Init E b s =
        (Return (Some (''/dev/pf device not found: '' @ e)), s @ [Stat ''/dev/pf'' (Some e)]))
 \<and> (os_Stat E s pfDevice = None
      \<and> exec_LookPath E (s @ [Stat pfDevice None]) pfctlCmd = Some e \<longrightarrow>
      pf_Init E b s =
        (Return (Some (''/sbin/pfctl command not found: '' @ e)),
         s @ [Stat ''/dev/pf'' None, LookPath ''/sbin/pfctl'' (Some e)]))
 \<and> (os_Stat E s pfDevice = None \<longrightarrow>
      (\<exists>t. snd (pf_Init E b s) =
             s @ [Stat ''/dev/pf'' None,
                  LookPath ''/sbin/pfctl'' (exec_LookPath E (s @ [Stat pfDevice None]) pfctlCmd)] @ t
           \<and> lookups t = []))"
proof (intro conjI impI)
  assume "os_Stat E s pfDevice = Some e"
  then show "pf_Init E b s =
        (Return (Some (''/dev/pf device not found: '' @ e)), s @ [Stat ''/dev/pf'' (Some e)])"
    by (simp add: pf_Init_def pfDevice_def)
next
  assume "os_Stat E s pfDevice = None
      \<and> exec_LookPath E (s @ [Stat pfDevice None]) pfctlCmd = Some e"
  then show "pf_Init E b s =
        (Return (Some (''/sbin/pfctl command not found: '' @ e)),
         s @ [Stat ''/dev/pf'' None, LookPath ''/sbin/pfctl'' (Some e)])"
    by (simp add: pf_Init_def pfDevice_def pfctlCmd_def)
next
  assume "os_Stat E s pfDevice = None"
  from Init_one_lookup [OF this, of b]
  show "\<exists>t. snd (pf_Init E b s) =
             s @ [Stat ''/dev/pf'' None,
                  LookPath ''/sbin/pfctl'' (exec_LookPath E (s @ [Stat pfDevice None]) pfctlCmd)] @ t
           \<and> lookups t = []"
    by (simp add: pfDevice_def pfctlCmd_def)
qed

text \<open>
  C6 in a world without the device, in one with the device and without the tool, and in
  one with both.
\<close>

theorem Init_preconditions_witness:
  "pf_Init (example_world (Some ''stat /dev/pf: no such file or directory'') None succeeds)
     inet_only []
   = (Return (Some ''/dev/pf device not found: stat /dev/pf: no such file or directory''),
      [Stat ''/dev/pf'' (Some ''stat /dev/pf: no such file or directory'')])
 \<and> pf_Init (example_world None (Some ''stat /sbin/pfctl: no such file or directory'') succeeds)
     inet_only []
   = (Return (Some ''/sbin/pfctl command not found: stat /sbin/pfctl: no such file or directory''),
      [Stat ''/dev/pf'' None,
       LookPath ''/sbin/pfctl'' (Some ''stat /sbin/pfctl: no such file or directory'')])
 \<and> lookups (snd (pf_Init (example_world None None lists_inet_table) dual_stack []))
   = [''/sbin/pfctl'']"
proof -
  let ?nodev = "example_world (Some ''stat /dev/pf: no such file or directory'') None succeeds"
  let ?notool = "example_world None (Some ''stat /sbin/pfctl: no such file or directory'') succeeds"
  let ?ok = "example_world None None lists_inet_table"
  have h1: "os_Stat ?nodev [] pfDevice = Some ''stat /dev/pf: no such file or directory''"
    and h2: "os_Stat ?notool [] pfDevice = None
      \<and> exec_LookPath ?notool ([] @ [Stat pfDevice None]) pfctlCmd
          = Some ''stat /sbin/pfctl: no such file or directory''"
    and h3: "os_Stat ?ok [] pfDevice = None"
    by (simp_all add: example_world_def)
  from h1 Init_preconditions [of ?nodev "[]" "''stat /dev/pf: no such file or directory''" inet_only]
  have r1: "pf_Init ?nodev inet_only [] =
      (Return (Some (''/dev/pf device not found: '' @ ''stat /dev/pf: no such file or directory'')),
       [] @ [Stat ''/dev/pf'' (Some ''stat /dev/pf: no such file or directory'')])"
    by blast
  from h2 Init_preconditions [of ?notool "[]" "''stat /sbin/pfctl: no such file or directory''" inet_only]
  have r2: "pf_Init ?notool inet_only [] =
      (Return (Some (''/sbin/pfctl command not found: '' @ ''stat /sbin/pfctl: no such file or directory'')),
       [] @ [Stat ''/dev/pf'' None, LookPath ''/sbin/pfctl'' (Some ''stat /sbin/pfctl: no such file or directory'')])"
    by blast
  from h3 Init_preconditions [of ?ok "[]" _ dual_stack]
  obtain t where "snd (pf_Init ?ok dual_stack []) =
      [] @ [Stat ''/dev/pf'' None,
            LookPath ''/sbin/pfctl'' (exec_LookPath ?ok ([] @ [Stat pfDevice None]) pfctlCmd)] @ t"
    and "lookups t = []"
    by blast
  then have r3: "lookups (snd (pf_Init ?ok dual_stack [])) = [''/sbin/pfctl'']"
    by simp
  from r1 r2 r3 show ?thesis by simp
qed

text \<open>
  Claim C8. On a backend with its IPv4 context, \<open>ShutDown\<close> returns \<^verbatim>\<open>nil\<close> whatever the
  tool answers. The invocations it makes are the flush of the IPv4 table and then, exactly
  when the IPv6 context is present, the flush of the IPv6 table, each once; a failed
  flush is followed by an \<^verbatim>\<open>Errorf\<close> line with the error and the captured output, and is
  not returned.
\<close>

theorem ShutDown_flushes_once:
  assumes "inet b = Some c4"
  shows "fst (pf_ShutDown E b s) = Return None
       \<and> (\<exists>t. snd (pf_ShutDown E b s) = s @ t
            \<and> invocations t =
                [''/sbin/pfctl'', ''-t'', table c4, ''-T'', ''flush''] #
                (case inet6 b of None \<Rightarrow> []
                 | Some c6 \<Rightarrow> [[''/sbin/pfctl'', ''-t'', table c6, ''-T'', ''flush'']])
            \<and> (\<forall>cmd out e. Exec cmd out (Some e) \<in> set t \<longrightarrow>
                 Log Errorf ''Error while flushing table (%s): %v - %s'' [Str e, Str out] \<in> set t))"
proof -
  let ?s1 = "s @ [Log Infof ''flushing 'crowdsec' table(s)'' []]"
  obtain t1 where t1: "pfContext_shutDown E (Some c4) ?s1 = (Return None, ?s1 @ t1)"
      "invocations t1 = [[pfctlCmd, ''-t'', table c4, ''-T'', ''flush'']]"
      "\<forall>cmd out e. Exec cmd out (Some e) \<in> set t1 \<longrightarrow>
           Log Errorf ''Error while flushing table (%s): %v - %s'' [Str e, Str out] \<in> set t1"
    using shutDown_Some [of E c4 ?s1] by blast
  show ?thesis
  proof (cases "inet6 b")
    case None
    with assms t1 show ?thesis
      by (simp add: pf_ShutDown_def check_def pfctlCmd_def)
  next
    case (Some c6)
    obtain t2 where t2: "pfContext_shutDown E (Some c6) (?s1 @ t1) = (Return None, (?s1 @ t1) @ t2)"
      "invocations t2 = [[pfctlCmd, ''-t'', table c6, ''-T'', ''flush'']]"
      "\<forall>cmd out e. Exec cmd out (Some e) \<in> set t2 \<longrightarrow>
           Log Errorf ''Error while flushing table (%s): %v - %s'' [Str e, Str out] \<in> set t2"
      using shutDown_Some [of E c6 "?s1 @ t1"] by blast
    from assms Some t1 t2 show ?thesis
      by (auto simp: pf_ShutDown_def check_def pfctlCmd_def)
  qed
qed

text \<open>
  C8 on the backend with both contexts in a world where every flush fails, and on the
  backend with the IPv4 context only.
\<close>

theorem ShutDown_flushes_once_witness:
  "inet dual_stack = Some \<lparr>proto = ''inet'', table = ''crowdsec-blacklists''\<rparr>
 \<and> fst (pf_ShutDown (example_world None None fails) dual_stack []) = Return None
 \<and> invocations (snd (pf_ShutDown (example_world None None fails) dual_stack []))
   = [[''/sbin/pfctl'', ''-t'', ''crowdsec-blacklists'', ''-T'', ''flush''],
      [''/sbin/pfctl'', ''-t'', ''crowdsec6-blacklists'', ''-T'', ''flush'']]
 \<and> Log Errorf ''Error while flushing table (%s): %v - %s''
      [Str ''exit status 1'', Str ''pfctl: Operation not permitted.'']
     \<in> set (snd (pf_ShutDown (example_world None None fails) dual_stack []))
 \<and> inet inet_only = Some \<lparr>proto = ''inet'', table = ''crowdsec-blacklists''\<rparr>
 \<and> fst (pf_ShutDown (example_world None None succeeds) inet_only []) = Return None
 \<and> invocations (snd (pf_ShutDown (example_world None None succeeds) inet_only []))
   = [[''/sbin/pfctl'', ''-t'', ''crowdsec-blacklists'', ''-T'', ''flush'']]"
proof -
  let ?F = "example_world None None fails"
  let ?Q = "example_world None None succeeds"
  let ?c4 = "\<lparr>proto = ''inet'', table = ''crowdsec-blacklists''\<rparr>"
  have h2: "inet dual_stack = Some ?c4" and h1: "inet inet_only = Some ?c4"
    and six: "inet6 dual_stack = Some \<lparr>proto = ''inet6'', table = ''crowdsec6-blacklists''\<rparr>"
    and four: "inet6 inet_only = None"
    by (simp_all add: dual_stack_def inet_only_def)
  have failed: "Exec [''/sbin/pfctl'', ''-t'', ''crowdsec-blacklists'', ''-T'', ''flush'']
      ''pfctl: Operation not permitted.'' (Some ''exit status 1'')
      \<in> set (snd (pf_ShutDown ?F dual_stack []))"
    by (simp add: pf_ShutDown_def check_def pfContext_shutDown_def example_defs)
  from ShutDown_flushes_once [OF h2, of ?F "[]"] six failed
  have r2: "fst (pf_ShutDown ?F dual_stack []) = Return None
    \<and> invocations (snd (pf_ShutDown ?F dual_stack []))
       = [[''/sbin/pfctl'', ''-t'', ''crowdsec-blacklists'', ''-T'', ''flush''],
          [''/sbin/pfctl'', ''-t'', ''crowdsec6-blacklists'', ''-T'', ''flush'']]
    \<and> Log Errorf ''Error while flushing table (%s): %v - %s''
         [Str ''exit status 1'', Str ''pfctl: Operation not permitted.'']
        \<in> set (snd (pf_ShutDown ?F dual_stack []))"
    by auto
  from ShutDown_flushes_once [OF h1, of ?Q "[]"] four
  have r1: "fst (pf_ShutDown ?Q inet_only []) = Return None
    \<and> invocations (snd (pf_ShutDown ?Q inet_only []))
       = [[''/sbin/pfctl'', ''-t'', ''crowdsec-blacklists'', ''-T'', ''flush'']]"
    by auto
  from h1 h2 r1 r2 show ?thesis by simp
qed

end
